theory Spec2Isabelle
  imports Complex_Main "HOL-Library.Log_Nat"
begin

section \<open>Game types (game/types.ts)\<close>

text \<open>
  TypeScript numbers are IEEE 754 doubles. Counters (strikes, outs, runs, pitches, the pitch
  limit, the number of bases gained) only ever hold small whole numbers, on which double
  arithmetic is exact, and are modelled as \<open>int\<close>. Progress values, thresholds, timestamps
  and durations are doubles; they are modelled as the \<open>real\<close> numbers the doubles stand
  for, and every arithmetic operation of the source rounds its exact result to the nearest
  double (section on double arithmetic below). Comparisons of doubles compare their values.
\<close>

datatype PitchType = straight | slider | curve | sinker

record Runners =
  on1 :: bool
  on2 :: bool
  on3 :: bool

datatype StrikeReason = early | late | miss

datatype HitKind = single | double | triple | homerun

text \<open>
  \<open>Hit kind timingDelta exitVelo launchDeg distance\<close> is the third variant of the union
  \<open>HitResult\<close>; \<open>Foul timingDelta\<close> and \<open>Strike reason\<close> are the other two.
\<close>

datatype HitResult =
    Strike StrikeReason
  | Foul real
  | Hit HitKind real real real real

section \<open>Double arithmetic\<close>

text \<open>
  A finite double is a real of the form \<open>m * 2^(e - 52)\<close> with a whole \<open>m\<close>,
  \<open>\<bar>m\<bar> < 2^53\<close> and \<open>- 1022 \<le> e \<le> 1023\<close>. \<open>fl x\<close> is the double nearest to the real
  \<open>x\<close>, a tie going to the even significand (the default rounding of IEEE 754, which
  JavaScript uses for every operation and for reading a decimal literal). Infinities and NaN
  are not modelled: the operations of this program are applied to timestamps, progress
  values in \<open>[0, 1]\<close>, speeds and the constants below, and none of them overflows.
\<close>

text \<open>The whole number nearest to \<open>y\<close>, a tie going to the even one.\<close>

definition roundHalfEven :: "real \<Rightarrow> int" where
  "roundHalfEven y =
     (let r = \<lfloor>y\<rfloor>; d = y - of_int r
      in if d < 1 / 2 then r else if d > 1 / 2 then r + 1 else if even r then r else r + 1)"

text \<open>
  For \<open>a > 0\<close>, the exponent \<open>e\<close> with \<open>2^e \<le> a < 2^(e + 1)\<close>, from the bit length of
  a whole number (lemma \<open>binade_bounds\<close> below).
\<close>

definition binade :: "real \<Rightarrow> int" where
  "binade a = (if a \<ge> 1 then bitlen \<lfloor>a\<rfloor> - 1 else - bitlen (\<lceil>1 / a\<rceil> - 1))"

text \<open>The spacing \<open>2^(e - 52)\<close> of the doubles with exponent \<open>e\<close>.\<close>

definition ulp :: "int \<Rightarrow> real" where
  "ulp e = (if e \<ge> 52 then 2 ^ nat (e - 52) else 1 / 2 ^ nat (52 - e))"

text \<open>Below \<open>2^(- 1022)\<close> the spacing stays that of the exponent \<open>- 1022\<close> (subnormals).\<close>

definition fl :: "real \<Rightarrow> real" where
  "fl x = (if x = 0 then 0
           else (let e = max (binade \<bar>x\<bar>) (- 1022); u = ulp e
                 in of_int (roundHalfEven (x / u)) * u))"

definition fadd :: "real \<Rightarrow> real \<Rightarrow> real" where "fadd a b = fl (a + b)"
definition fsub :: "real \<Rightarrow> real \<Rightarrow> real" where "fsub a b = fl (a - b)"
definition fmul :: "real \<Rightarrow> real \<Rightarrow> real" where "fmul a b = fl (a * b)"
definition fdiv :: "real \<Rightarrow> real \<Rightarrow> real" where "fdiv a b = fl (a / b)"

section \<open>Constants (game/constants.ts)\<close>

text \<open>A decimal literal of the source denotes the double nearest to it.\<close>

definition CONTACT_PROGRESS :: real where "CONTACT_PROGRESS = fl 0.86"
definition PERFECT :: real where "PERFECT = fl 0.010"
definition GOOD :: real where "GOOD = fl 0.020"
definition OKAY :: real where "OKAY = fl 0.035"
definition FOUL :: real where "FOUL = fl 0.055"

section \<open>Pure utilities (game/utils.ts)\<close>

definition clamp :: "real \<Rightarrow> real \<Rightarrow> real \<Rightarrow> real" where
  "clamp v lo hi = max lo (min hi v)"

definition lerp :: "real \<Rightarrow> real \<Rightarrow> real \<Rightarrow> real" where
  "lerp a b t = fadd a (fmul (fsub b a) t)"

text \<open>\<open>rand a b\<close> draws \<open>Math.random()\<close>; the draw \<open>u\<close> is an argument of the model.\<close>

definition rand :: "real \<Rightarrow> real \<Rightarrow> real \<Rightarrow> real" where
  "rand a b u = lerp a b u"

definition plateTimeMsFromMph :: "real \<Rightarrow> real" where
  "plateTimeMsFromMph mph = lerp 2000 400 (clamp (fdiv (fsub mph 20) (fsub 100 20)) 0 1)"

text \<open>
  \<open>Math.PI\<close> is the double nearest to \<open>\<pi>\<close>, which is the double nearest to
  3.141592653589793. \<open>Math.sin\<close> is approximated by the platform; it is the argument
  \<open>mathSin\<close> of the model.
\<close>

definition MathPI :: real where "MathPI = fl 3.141592653589793"

definition estimateDistance :: "(real \<Rightarrow> real) \<Rightarrow> real \<Rightarrow> real \<Rightarrow> real" where
  "estimateDistance mathSin exitVelo launchDeg =
     (let g = fl 9.81;
          v = exitVelo;
          theta = fdiv (fmul launchDeg MathPI) 180;
          raw = fdiv (fmul (fmul v v) (mathSin (fmul 2 theta))) g;
          drag = fl 0.82
      in max 0 (fmul raw drag))"

text \<open>A platform whose \<open>Math.sin\<close> is correctly rounded.\<close>

definition roundedSin :: "real \<Rightarrow> real" where
  "roundedSin x = fl (sin x)"

subsection \<open>advanceBases\<close>

text \<open>
  \<open>nextArr[j] = true\<close> on the three-element array. The assignment is only reached with
  \<open>j < 3\<close>; for a negative \<open>j\<close> JavaScript stores a property named by \<open>j\<close> and leaves the
  three elements, which are all the function reads afterwards, as they are.
\<close>

definition occupy :: "bool list \<Rightarrow> int \<Rightarrow> bool list" where
  "occupy nextArr j = (if 0 \<le> j then nextArr[nat j := True] else nextArr)"

text \<open>
  The loop \<open>for (let i = 2; i >= 0; i--)\<close>, carrying \<open>nextArr\<close> and \<open>scored\<close>.
\<close>

function advanceLoop :: "bool list \<Rightarrow> int \<Rightarrow> int \<Rightarrow> bool list \<times> int \<Rightarrow> bool list \<times> int" where
  "advanceLoop arr n i (nextArr, scored) =
     (if i \<ge> 0 then
        (if \<not> arr ! nat i then advanceLoop arr n (i - 1) (nextArr, scored)
         else
           (let j = i + n in
            if j \<ge> 3 then advanceLoop arr n (i - 1) (nextArr, scored + 1)
            else advanceLoop arr n (i - 1) (occupy nextArr j, scored)))
      else (nextArr, scored))"
  by pat_completeness auto
termination
  by (relation "measure (\<lambda>(arr, n, i, acc). nat (i + 1))") auto

declare advanceLoop.simps [simp del]

text \<open>
  The result \<open>{ next, scored }\<close> is the pair \<open>(next, scored)\<close>. The callers pass the whole
  numbers 1, 2 and 3 for \<open>n\<close>.
\<close>

definition advanceBases :: "Runners \<Rightarrow> int \<Rightarrow> Runners \<times> int" where
  "advanceBases state n =
     (let arr = [on1 state, on2 state, on3 state] in
      if n \<ge> 4 then
        (let scored = int (length (filter (\<lambda>b. b) arr)) + 1
         in (\<lparr>on1 = False, on2 = False, on3 = False\<rparr>, scored))
      else
        (let (nextArr, scored) = advanceLoop arr n 2 ([False, False, False], 0);
             batterIndex = n - 1;
             (nextArr, scored) =
               (if batterIndex \<ge> 3 then (nextArr, scored + 1)
                else (occupy nextArr batterIndex, scored))
         in (\<lparr>on1 = nextArr ! 0, on2 = nextArr ! 1, on3 = nextArr ! 2\<rparr>, scored)))"

subsection \<open>Reading an occupancy state\<close>

text \<open>Occupancy of the base at index \<open>i\<close> (0 = first, 1 = second, 2 = third).\<close>

definition baseAt :: "Runners \<Rightarrow> int \<Rightarrow> bool" where
  "baseAt r i = (if i = 0 then on1 r else if i = 1 then on2 r else if i = 2 then on3 r else False)"

text \<open>The number of occupied bases.\<close>

definition occupied :: "Runners \<Rightarrow> int" where
  "occupied r = (if on1 r then 1 else 0) + (if on2 r then 1 else 0) + (if on3 r then 1 else 0)"

text \<open>The number of base indices, among 0, 1 and 2, that satisfy \<open>P\<close>.\<close>

definition countBases :: "(int \<Rightarrow> bool) \<Rightarrow> int" where
  "countBases P = int (length (filter P [0, 1, 2]))"

section \<open>The timing screen (screens/ScreenBaseballTiming.tsx)\<close>

text \<open>
  The component keeps its game state in React state cells and three mutable references.
  One record holds them all; every handler is a function from the record before the call
  to the record after all of its updates are applied. The effects that React runs after a
  render (\<open>inningEffect\<close>, \<open>gameOverEffect\<close>) are functions of their own, applied to the
  state the handler leaves. The component is rendered without \<open>StrictMode\<close>, so an updater
  passed to a setter runs once.
\<close>

record Session =
  inPlay :: bool
  progress :: real
  result :: "HitResult option"
  strikes :: int
  outs :: int
  runs :: int
  pitches :: int
  maxPitches :: int
  gameOver :: bool
  runners :: Runners
  swingAtRef :: "real option"
  rafRef :: "nat option"
  startTsRef :: "real option"

text \<open>The values of the \<open>useState\<close> and \<open>useRef\<close> initialisers.\<close>

definition initialSession :: Session where
  "initialSession =
     \<lparr>inPlay = False, progress = 0, result = None, strikes = 0, outs = 0, runs = 0,
      pitches = 0, maxPitches = 5, gameOver = False,
      runners = \<lparr>on1 = False, on2 = False, on3 = False\<rparr>,
      swingAtRef = None, rafRef = None, startTsRef = None\<rparr>"

text \<open>
  \<open>cancelRaf\<close> tests the handle for truthiness: \<open>null\<close> and the number 0 are falsy.
\<close>

definition cancelRaf :: "Session \<Rightarrow> Session" where
  "cancelRaf s =
     (case rafRef s of
        None \<Rightarrow> s
      | Some h \<Rightarrow> if h = 0 then s else s\<lparr>rafRef := None\<rparr>)"

subsection \<open>settleResult\<close>

text \<open>
  The home-run branch reads \<open>runners\<close> from the render that created the handler. The
  handlers that call \<open>settleResult\<close> are rebuilt whenever \<open>inPlay\<close> or \<open>progress\<close> changes,
  and a swing is only accepted while \<open>inPlay\<close> holds, so the value read is the occupancy
  of the state the result is applied to.
\<close>

fun settleResult :: "HitResult \<Rightarrow> Session \<Rightarrow> Session" where
  "settleResult (Strike reason) s =
     (let s = s\<lparr>result := Some (Strike reason)\<rparr>;
          ns = strikes s + 1
      in if ns \<ge> 3 then s\<lparr>outs := outs s + 1, strikes := 0\<rparr>
         else s\<lparr>strikes := ns\<rparr>)"
| "settleResult (Foul timingDelta) s =
     (let s = s\<lparr>result := Some (Foul timingDelta)\<rparr>
      in s\<lparr>strikes := (if strikes s < 2 then strikes s + 1 else 2),
            maxPitches := maxPitches s + 1\<rparr>)"
| "settleResult (Hit kind timingDelta exitVelo launchDeg distance) s =
     (let s = s\<lparr>result := Some (Hit kind timingDelta exitVelo launchDeg distance)\<rparr> in
      if kind = homerun then
        (let runnersNow = (if on1 (runners s) then 1 else 0) + (if on2 (runners s) then 1 else 0)
                          + (if on3 (runners s) then 1 else 0)
         in s\<lparr>runs := runs s + 5 + runnersNow,
               runners := \<lparr>on1 = False, on2 = False, on3 = False\<rparr>,
               strikes := 0\<rparr>)
      else
        (let bases = (if kind = single then 1 else if kind = double then 2 else 3);
             (nextRunners, scored) = advanceBases (runners s) bases
         in s\<lparr>runs := runs s + 1 + scored, runners := nextRunners, strikes := 0\<rparr>))"

subsection \<open>startPitch and the frame callback\<close>

text \<open>
  \<open>now\<close> is the reading of \<open>performance.now()\<close> and \<open>handle\<close> the identifier that
  \<open>requestAnimationFrame\<close> returns.
\<close>

definition startPitch :: "real \<Rightarrow> nat \<Rightarrow> Session \<Rightarrow> Session" where
  "startPitch now handle s =
     (if inPlay s then s
      else
        (let s = cancelRaf s;
             s = s\<lparr>result := None, inPlay := True, progress := 0,
                   swingAtRef := None, startTsRef := Some now\<rparr>;
             s = s\<lparr>rafRef := Some handle\<rparr>
         in s\<lparr>pitches := pitches s + 1\<rparr>))"

text \<open>
  One run of the frame callback \<open>step\<close>. \<open>plateTime\<close> is the flight duration the callback
  was created with, a value of \<open>plateTimeMsFromMph\<close> and so never 0. Both \<open>startTsRef.current || now\<close> and \<open>!swingAtRef.current\<close> test
  truthiness: \<open>null\<close> and the number 0 are falsy.
\<close>

definition step :: "real \<Rightarrow> real \<Rightarrow> nat \<Rightarrow> Session \<Rightarrow> Session" where
  "step plateTime now handle s =
     (let elapsed = fsub now (case startTsRef s of
                                None \<Rightarrow> now
                              | Some ts \<Rightarrow> if ts = 0 then now else ts);
          t = clamp (fdiv elapsed plateTime) 0 1;
          s = s\<lparr>progress := t\<rparr>
      in if t < 1 then s\<lparr>rafRef := Some handle\<rparr>
         else
           (let s =
              (case swingAtRef s of
                 None \<Rightarrow> settleResult (Strike miss) s
               | Some swingAt \<Rightarrow>
                   if swingAt = 0 then settleResult (Strike miss) s
                   else
                     (let d = \<bar>fsub swingAt CONTACT_PROGRESS\<bar> in
                      if d > FOUL
                      then settleResult (Strike (if swingAt < CONTACT_PROGRESS then early else late)) s
                      else s));
                s = cancelRaf s
            in s\<lparr>inPlay := False\<rparr>))"

subsection \<open>doSwing\<close>

text \<open>
  \<open>u1\<close> and \<open>u2\<close> are the two draws of \<open>Math.random()\<close> a contact makes, \<open>mathSin\<close> is
  the platform's \<open>Math.sin\<close>.
\<close>

definition doSwing :: "(real \<Rightarrow> real) \<Rightarrow> real \<Rightarrow> real \<Rightarrow> Session \<Rightarrow> Session" where
  "doSwing mathSin u1 u2 s =
     (if \<not> inPlay s then s
      else
        (let t = progress s;
             s = s\<lparr>swingAtRef := Some t\<rparr>;
             delta = \<bar>fsub t CONTACT_PROGRESS\<bar>
         in
           if delta \<le> PERFECT then
             (let exitV = rand 43 50 u1; launch = rand 24 32 u2;
                  s = settleResult (Hit homerun delta exitV launch (estimateDistance mathSin exitV launch)) s
              in s\<lparr>inPlay := False\<rparr>)
           else if delta \<le> GOOD then
             (let exitV = rand 38 46 u1; launch = rand 18 28 u2;
                  s = settleResult (Hit double delta exitV launch (estimateDistance mathSin exitV launch)) s
              in s\<lparr>inPlay := False\<rparr>)
           else if delta \<le> OKAY then
             (let exitV = rand 32 42 u1; launch = rand 10 22 u2;
                  kind = (if delta < fmul OKAY (fl 0.6) then double else single);
                  s = settleResult (Hit kind delta exitV launch (estimateDistance mathSin exitV launch)) s
              in s\<lparr>inPlay := False\<rparr>)
           else if delta \<le> FOUL then
             (let s = settleResult (Foul delta) s
              in s\<lparr>inPlay := False\<rparr>)
           else s))"

subsection \<open>Effects and reset\<close>

text \<open>The effect on \<open>outs\<close>.\<close>

definition inningEffect :: "Session \<Rightarrow> Session" where
  "inningEffect s =
     (if outs s \<ge> 3
      then s\<lparr>outs := 0, strikes := 0, runners := \<lparr>on1 = False, on2 = False, on3 = False\<rparr>\<rparr>
      else s)"

text \<open>The effect on \<open>pitches\<close>.\<close>

definition gameOverEffect :: "Session \<Rightarrow> Session" where
  "gameOverEffect s =
     (if pitches s \<ge> maxPitches s then s\<lparr>inPlay := False, gameOver := True\<rparr> else s)"

definition resetAll :: "Session \<Rightarrow> Session" where
  "resetAll s =
     s\<lparr>strikes := 0, outs := 0, runs := 0, pitches := 0, result := None,
       inPlay := False, progress := 0,
       runners := \<lparr>on1 = False, on2 = False, on3 = False\<rparr>,
       gameOver := False\<rparr>"

section \<open>Facts about the double arithmetic\<close>

text \<open>\<open>binade\<close> is the exponent of the power of two at or below its argument.\<close>

lemma binade_bounds:
  assumes "0 < a"
  shows "2 powi (binade a) \<le> a \<and> a < 2 powi (binade a + 1)"
proof (cases "a \<ge> 1")
  case True
  define n where "n = \<lfloor>a\<rfloor>"
  have n: "1 \<le> n" "of_int n \<le> a" "a < of_int n + 1"
    using True unfolding n_def by linarith+
  have k: "1 \<le> bitlen n"
    using n(1) by (simp add: bitlen_alt_def)
  from bitlen_bounds [of n] n(1)
  have b: "2 ^ nat (bitlen n - 1) \<le> n" "n < 2 ^ nat (bitlen n)"
    by auto
  have e: "binade a = bitlen n - 1"
    using True by (simp add: binade_def n_def)
  have "(2::real) powi (bitlen n - 1) = 2 ^ nat (bitlen n - 1)"
    using k by (simp add: power_int_def)
  also have "\<dots> = of_int (2 ^ nat (bitlen n - 1))"
    by simp
  also have "\<dots> \<le> of_int n"
    using b(1) by (simp only: of_int_le_iff)
  finally have lo: "2 powi (binade a) \<le> a"
    using n(2) e by simp
  have "n + 1 \<le> 2 ^ nat (bitlen n)"
    using b(2) by simp
  then have "real_of_int (n + 1) \<le> of_int (2 ^ nat (bitlen n))"
    by (simp only: of_int_le_iff)
  moreover have "real_of_int (2 ^ nat (bitlen n)) = 2 ^ nat (bitlen n)" "real_of_int (n + 1) = of_int n + 1"
    by simp_all
  ultimately have "a < 2 ^ nat (bitlen n)"
    using n(3) by linarith
  moreover have "(2::real) powi (bitlen n - 1 + 1) = 2 ^ nat (bitlen n)"
    using k by (simp add: power_int_def)
  ultimately have hi: "a < 2 powi (binade a + 1)"
    using e by simp
  from lo hi show ?thesis ..
next
  case False
  define m where "m = \<lceil>1 / a\<rceil>"
  from False assms have inv: "1 < 1 / a"
    by simp
  have m: "2 \<le> m" "1 / a \<le> of_int m" "of_int m - 1 < 1 / a"
    using inv unfolding m_def by linarith+
  define k where "k = bitlen (m - 1)"
  have kpos: "1 \<le> k"
    using m(1) by (simp add: k_def bitlen_alt_def)
  from bitlen_bounds [of "m - 1"] m(1)
  have b: "2 ^ nat (k - 1) \<le> m - 1" "m - 1 < 2 ^ nat k"
    by (auto simp: k_def)
  have e: "binade a = - k"
    using False by (simp add: binade_def m_def k_def)
  have "m \<le> 2 ^ nat k"
    using b(2) by simp
  then have "real_of_int m \<le> of_int (2 ^ nat k)"
    by (simp only: of_int_le_iff)
  moreover have "real_of_int (2 ^ nat k) = 2 ^ nat k"
    by simp
  ultimately have "1 / a \<le> 2 ^ nat k"
    using m(2) by linarith
  then have "1 / 2 ^ nat k \<le> a"
    using assms by (simp add: field_simps)
  moreover have "(2::real) powi (- k) = 1 / 2 ^ nat k"
    using kpos by (simp add: power_int_def field_simps)
  ultimately have lo: "2 powi (binade a) \<le> a"
    using e by simp
  have "real_of_int (2 ^ nat (k - 1)) \<le> of_int (m - 1)"
    using b(1) by (simp only: of_int_le_iff)
  moreover have "real_of_int (2 ^ nat (k - 1)) = 2 ^ nat (k - 1)" "real_of_int (m - 1) = of_int m - 1"
    by simp_all
  ultimately have "2 ^ nat (k - 1) < 1 / a"
    using m(3) by linarith
  then have "a < 1 / 2 ^ nat (k - 1)"
    using assms by (simp add: field_simps)
  moreover have "(2::real) powi (- k + 1) = 1 / 2 ^ nat (k - 1)"
  proof (cases "k = 1")
    case True
    then show ?thesis by simp
  next
    case False
    with kpos have "- k + 1 < 0" "nat (- (- k + 1)) = nat (k - 1)"
      by auto
    then show ?thesis
      by (simp add: power_int_def field_simps)
  qed
  ultimately have hi: "a < 2 powi (binade a + 1)"
    using e by simp
  from lo hi show ?thesis ..
qed

text \<open>Rounding to a whole number moves by at most a half.\<close>

lemma roundHalfEven_near: "\<bar>of_int (roundHalfEven y) - y\<bar> \<le> 1 / 2"
  unfolding roundHalfEven_def Let_def by (simp; linarith)

text \<open>
  The rules that evaluate the operations on numerals, and the values of the constants as
  fractions with a power of two below.
\<close>

lemmas fl_eval = fl_def binade_def ulp_def roundHalfEven_def Let_def compute_bitlen
  fadd_def fsub_def fmul_def fdiv_def

lemmas model_eval = CONTACT_PROGRESS_def PERFECT_def GOOD_def OKAY_def FOUL_def
  plateTimeMsFromMph_def rand_def lerp_def clamp_def fl_eval

lemma threshold_values:
  "CONTACT_PROGRESS = 7746191359077253 / 2 ^ 53"
  "PERFECT = 5764607523034235 / 2 ^ 59"
  "GOOD = 5764607523034235 / 2 ^ 58"
  "OKAY = 5044031582654956 / 2 ^ 57"
  "FOUL = 7926335344172073 / 2 ^ 57"
  "fmul OKAY (fl 0.6) = 6052837899185947 / 2 ^ 58"
  by (simp_all add: CONTACT_PROGRESS_def PERFECT_def GOOD_def OKAY_def FOUL_def fl_eval)

lemma thresholds_order:
  "0 < PERFECT \<and> PERFECT < GOOD \<and> GOOD < fmul OKAY (fl 0.6) \<and> fmul OKAY (fl 0.6) < OKAY \<and> OKAY < FOUL"
  by (simp add: CONTACT_PROGRESS_def PERFECT_def GOOD_def OKAY_def FOUL_def fl_eval)


section \<open>Facts about the handlers\<close>

text \<open>The state a swing in flight leaves, band by band.\<close>

lemma doSwing_cases:
  assumes "inPlay s"
  shows "(let delta = \<bar>fsub (progress s) CONTACT_PROGRESS\<bar>;
              s1 = s\<lparr>swingAtRef := Some (progress s)\<rparr>;
              s' = doSwing mathSin u1 u2 s;
              contact = (\<lambda>kind exitV launch.
                           Hit kind delta exitV launch (estimateDistance mathSin exitV launch))
          in (delta \<le> PERFECT \<longrightarrow>
                s' = (settleResult (contact homerun (rand 43 50 u1) (rand 24 32 u2)) s1)\<lparr>inPlay := False\<rparr>)
           \<and> (PERFECT < delta \<and> delta \<le> GOOD \<longrightarrow>
                s' = (settleResult (contact double (rand 38 46 u1) (rand 18 28 u2)) s1)\<lparr>inPlay := False\<rparr>)
           \<and> (GOOD < delta \<and> delta \<le> OKAY \<and> delta < fmul OKAY (fl 0.6) \<longrightarrow>
                s' = (settleResult (contact double (rand 32 42 u1) (rand 10 22 u2)) s1)\<lparr>inPlay := False\<rparr>)
           \<and> (GOOD < delta \<and> delta \<le> OKAY \<and> fmul OKAY (fl 0.6) \<le> delta \<longrightarrow>
                s' = (settleResult (contact single (rand 32 42 u1) (rand 10 22 u2)) s1)\<lparr>inPlay := False\<rparr>)
           \<and> (OKAY < delta \<and> delta \<le> FOUL \<longrightarrow>
                s' = (settleResult (Foul delta) s1)\<lparr>inPlay := False\<rparr>)
           \<and> (FOUL < delta \<longrightarrow> s' = s1))"
  using assms thresholds_order
  by (simp add: doSwing_def Let_def)

lemma result_settleResult: "result (settleResult r s) = Some r"
  by (cases r) (simp_all add: Let_def split_beta)

lemma result_cancelRaf: "result (cancelRaf s) = result s"
  by (simp add: cancelRaf_def split: option.splits)

text \<open>The frame callback before and at the end of the flight.\<close>

lemma step_in_flight:
  assumes "startTsRef s = Some ts" "ts \<noteq> 0"
    and "0 \<le> fdiv (fsub now ts) plateTime" "fdiv (fsub now ts) plateTime < 1"
  shows "step plateTime now h s = s\<lparr>progress := fdiv (fsub now ts) plateTime, rafRef := Some h\<rparr>"
  using assms by (simp add: step_def clamp_def Let_def)

lemma step_at_end:
  assumes "startTsRef s = Some ts" "ts \<noteq> 0" "1 \<le> fdiv (fsub now ts) plateTime"
  shows "step plateTime now h s =
     (cancelRaf
        (case swingAtRef s of
           None \<Rightarrow> settleResult (Strike miss) (s\<lparr>progress := 1\<rparr>)
         | Some swingAt \<Rightarrow>
             if swingAt = 0 then settleResult (Strike miss) (s\<lparr>progress := 1\<rparr>)
             else if \<bar>fsub swingAt CONTACT_PROGRESS\<bar> > FOUL
               then settleResult (Strike (if swingAt < CONTACT_PROGRESS then early else late))
                      (s\<lparr>progress := 1\<rparr>)
               else s\<lparr>progress := 1\<rparr>))\<lparr>inPlay := False\<rparr>"
proof -
  from assms(3) have "clamp (fdiv (fsub now ts) plateTime) 0 1 = 1"
    by (simp add: clamp_def)
  with assms(1,2) show ?thesis
    by (simp add: step_def Let_def split: option.splits)
qed

text \<open>A pitch started from the initial session, and the numbers of the flights used below.\<close>

lemma pitch_started:
  "inPlay (startPitch now h initialSession)"
  "progress (startPitch now h initialSession) = 0"
  "startTsRef (startPitch now h initialSession) = Some now"
  "swingAtRef (startPitch now h initialSession) = None"
  "maxPitches (startPitch now h initialSession) = 5"
  "strikes (startPitch now h initialSession) = 0"
  by (simp_all add: startPitch_def initialSession_def cancelRaf_def)

lemma flight_numbers:
  "\<bar>fsub 0 CONTACT_PROGRESS\<bar> = CONTACT_PROGRESS"
  "FOUL < CONTACT_PROGRESS"
  "fdiv (fsub 1700 1000) (plateTimeMsFromMph 85) = 1"
  "fdiv (fsub 1630 1000) (plateTimeMsFromMph 85) = 8106479329266893 / 2 ^ 53"
  "\<bar>fsub (8106479329266893 / 2 ^ 53) CONTACT_PROGRESS\<bar> = 45035996273705 / 2 ^ 50"
  "OKAY < 45035996273705 / 2 ^ 50"
  "45035996273705 / 2 ^ 50 \<le> FOUL"
  by (simp_all add: model_eval)

section \<open>Properties of advanceBases\<close>

lemma advanceLoop_unfold:
  "advanceLoop [a, b, c] n 2 acc =
     advanceLoop [a, b, c] n (- 1)
       (let acc2 = (if c then (if 2 + n \<ge> 3 then (fst acc, snd acc + 1) else (occupy (fst acc) (2 + n), snd acc)) else acc);
            acc1 = (if b then (if 1 + n \<ge> 3 then (fst acc2, snd acc2 + 1) else (occupy (fst acc2) (1 + n), snd acc2)) else acc2)
        in (if a then (if n \<ge> 3 then (fst acc1, snd acc1 + 1) else (occupy (fst acc1) n, snd acc1)) else acc1))"
  by (cases acc) (simp add: advanceLoop.simps Let_def)

lemma advanceLoop_done: "advanceLoop arr n (- 1) acc = acc"
  by (cases acc) (simp add: advanceLoop.simps)

lemma advanceBases_eval:
  "n \<in> {1, 2, 3} \<Longrightarrow>
   advanceBases \<lparr>on1 = a, on2 = b, on3 = c\<rparr> n =
     (\<lparr>on1 = (n = 1), on2 = (n = 2 \<or> (a \<and> n = 1)),
       on3 = (n = 3 \<or> (a \<and> n = 2) \<or> (b \<and> n = 1))\<rparr>,
      (if c then 1 else 0) + (if b \<and> n \<ge> 2 then 1 else 0) + (if a \<and> n \<ge> 3 then 1 else 0))"
  by (auto simp: advanceBases_def advanceLoop_unfold advanceLoop_done occupy_def Let_def)

text \<open>
  Claim C1. For every occupancy state and every \<open>n\<close> among 1, 2 and 3: \<open>scored\<close> is the
  number of occupied bases \<open>i\<close> with \<open>i + n \<ge> 3\<close> (plus the batter if \<open>n - 1 \<ge> 3\<close>);
  base \<open>k\<close> is occupied afterwards exactly when the batter lands there (\<open>k = n - 1\<close>) or
  a runner from an occupied base \<open>i\<close> with \<open>i + n = k\<close> does; the number of bases occupied
  afterwards is the number of runners that stay on base plus the batter, so no two of them
  share a base. With runners on first and third and \<open>n = 1\<close> the result is first and
  second occupied, third empty, one run scored.
\<close>

theorem advanceBases_moves:
  assumes "n \<in> {1, 2, 3}"
  shows "snd (advanceBases state n) =
           countBases (\<lambda>i. baseAt state i \<and> i + n \<ge> 3) + (if n - 1 \<ge> 3 then 1 else 0)
       \<and> (\<forall>k\<in>{0, 1, 2}. baseAt (fst (advanceBases state n)) k \<longleftrightarrow>
             (k = n - 1 \<and> n - 1 < 3) \<or> (\<exists>i\<in>{0, 1, 2}. baseAt state i \<and> i + n = k))
       \<and> occupied (fst (advanceBases state n)) =
           countBases (\<lambda>i. baseAt state i \<and> i + n < 3) + (if n - 1 < 3 then 1 else 0)
       \<and> advanceBases \<lparr>on1 = True, on2 = False, on3 = True\<rparr> 1 =
           (\<lparr>on1 = True, on2 = True, on3 = False\<rparr>, 1)"
proof -
  obtain a b c where st: "state = \<lparr>on1 = a, on2 = b, on3 = c\<rparr>"
    by (cases state) auto
  show ?thesis
    using assms unfolding st
    by (auto simp: advanceBases_eval baseAt_def countBases_def occupied_def)
qed

theorem advanceBases_moves_witness:
  "(1::int) \<in> {1, 2, 3}
   \<and> snd (advanceBases \<lparr>on1 = True, on2 = False, on3 = True\<rparr> 1) = 1
   \<and> occupied (fst (advanceBases \<lparr>on1 = True, on2 = False, on3 = True\<rparr> 1)) = 2
   \<and> baseAt (fst (advanceBases \<lparr>on1 = True, on2 = False, on3 = True\<rparr> 1)) 1"
  using advanceBases_moves [of 1 "\<lparr>on1 = True, on2 = False, on3 = True\<rparr>"]
  by (simp add: countBases_def baseAt_def occupied_def)

text \<open>
  Claim C10. For every occupancy state and every whole \<open>n \<ge> 1\<close>, the runs scored plus
  the bases occupied afterwards are the bases occupied before plus one (the batter).
\<close>

theorem advanceBases_conserves:
  assumes "1 \<le> n"
  shows "snd (advanceBases state n) + occupied (fst (advanceBases state n)) = occupied state + 1"
proof (cases "n \<ge> 4")
  case True
  then show ?thesis
    by (simp add: advanceBases_def occupied_def Let_def)
next
  case False
  with assms have n: "n \<in> {1, 2, 3}" by auto
  obtain a b c where st: "state = \<lparr>on1 = a, on2 = b, on3 = c\<rparr>"
    by (cases state) auto
  show ?thesis
    using n unfolding st by (auto simp: advanceBases_eval occupied_def)
qed

theorem advanceBases_conserves_witness:
  "(1::int) \<le> 2
   \<and> snd (advanceBases \<lparr>on1 = True, on2 = True, on3 = False\<rparr> 2)
       + occupied (fst (advanceBases \<lparr>on1 = True, on2 = True, on3 = False\<rparr> 2)) = 3"
  using advanceBases_conserves [of 2 "\<lparr>on1 = True, on2 = True, on3 = False\<rparr>"]
  by (simp add: occupied_def)

section \<open>Properties of the swing classification\<close>

text \<open>
  Claim C2. For a swing taken while a pitch is in flight, with \<open>delta\<close> the distance, as
  the program computes it, of the sampled progress from the contact point:
  \<open>delta \<le> PERFECT\<close> gives a home run; above that up to \<open>GOOD\<close> a double; above that up
  to \<open>OKAY\<close> a double when \<open>delta\<close> is below the product \<open>OKAY * 0.6\<close> and a single
  otherwise, so a single when \<open>delta\<close> equals the product; above that up to \<open>FOUL\<close> a
  foul; each of these ends the flight. Beyond \<open>FOUL\<close> only the swing progress is recorded:
  no result is set and the pitch stays in flight.
\<close>

theorem doSwing_ladder:
  assumes "inPlay s"
  shows "(let delta = \<bar>fsub (progress s) CONTACT_PROGRESS\<bar>;
              s' = doSwing mathSin u1 u2 s;
              contact = (\<lambda>kind exitV launch.
                           Some (Hit kind delta exitV launch (estimateDistance mathSin exitV launch)))
          in (delta \<le> PERFECT \<longrightarrow>
                result s' = contact homerun (rand 43 50 u1) (rand 24 32 u2) \<and> \<not> inPlay s')
           \<and> (PERFECT < delta \<and> delta \<le> GOOD \<longrightarrow>
                result s' = contact double (rand 38 46 u1) (rand 18 28 u2) \<and> \<not> inPlay s')
           \<and> (GOOD < delta \<and> delta \<le> OKAY \<and> delta < fmul OKAY (fl 0.6) \<longrightarrow>
                result s' = contact double (rand 32 42 u1) (rand 10 22 u2) \<and> \<not> inPlay s')
           \<and> (GOOD < delta \<and> delta \<le> OKAY \<and> fmul OKAY (fl 0.6) \<le> delta \<longrightarrow>
                result s' = contact single (rand 32 42 u1) (rand 10 22 u2) \<and> \<not> inPlay s')
           \<and> (OKAY < delta \<and> delta \<le> FOUL \<longrightarrow>
                result s' = Some (Foul delta) \<and> \<not> inPlay s')
           \<and> (FOUL < delta \<longrightarrow>
                s' = s\<lparr>swingAtRef := Some (progress s)\<rparr> \<and> inPlay s' \<and> result s' = result s))"
  using assms thresholds_order
  by (simp add: doSwing_def Let_def split_beta)

text \<open>
  Swings at the doubles 0.86, 0.87, 0.8805, 0.881, 0.895 and 0.915, with the distance each
  leaves after rounding: 0.87 is just outside \<open>PERFECT\<close>, 0.895 just outside \<open>OKAY\<close> and
  0.915 just outside \<open>FOUL\<close>.
\<close>

lemma swing_numbers:
  "\<bar>fsub (fl 0.86) CONTACT_PROGRESS\<bar> = 0"
  "\<bar>fsub (fl 0.87) CONTACT_PROGRESS\<bar> = 45035996273705 / 2 ^ 52"
  "\<bar>fsub (fl 0.8805) CONTACT_PROGRESS\<bar> = 92323792361095 / 2 ^ 52"
  "\<bar>fsub (fl 0.881) CONTACT_PROGRESS\<bar> = 189151184349561 / 2 ^ 53"
  "\<bar>fsub (fl 0.895) CONTACT_PROGRESS\<bar> = 315251973915935 / 2 ^ 53"
  "\<bar>fsub (fl 0.915) CONTACT_PROGRESS\<bar> = 495395959010755 / 2 ^ 53"
  by (simp_all add: model_eval)

lemma band_numbers:
  "(0::real) \<le> PERFECT"
  "PERFECT < 45035996273705 / 2 ^ 52 \<and> 45035996273705 / 2 ^ 52 \<le> GOOD"
  "GOOD < 92323792361095 / 2 ^ 52 \<and> 92323792361095 / 2 ^ 52 \<le> OKAY
     \<and> 92323792361095 / 2 ^ 52 < fmul OKAY (fl 0.6)"
  "GOOD < 189151184349561 / 2 ^ 53 \<and> 189151184349561 / 2 ^ 53 \<le> OKAY
     \<and> fmul OKAY (fl 0.6) \<le> 189151184349561 / 2 ^ 53"
  "OKAY < 315251973915935 / 2 ^ 53 \<and> 315251973915935 / 2 ^ 53 \<le> FOUL"
  "FOUL < 495395959010755 / 2 ^ 53"
  by (simp_all add: model_eval)

lemma rand_numbers:
  "rand 43 50 0.5 = 46.5" "rand 24 32 0.5 = 28"
  "rand 38 46 0.5 = 42" "rand 18 28 0.5 = 23"
  "rand 32 42 0.5 = 37" "rand 10 22 0.5 = 16"
  by (simp_all add: model_eval)

theorem doSwing_ladder_witness:
  "inPlay (initialSession\<lparr>inPlay := True, progress := fl 0.86\<rparr>)
   \<and> result (doSwing roundedSin 0.5 0.5 (initialSession\<lparr>inPlay := True, progress := fl 0.86\<rparr>))
       = Some (Hit homerun 0 46.5 28 (estimateDistance roundedSin 46.5 28))
   \<and> result (doSwing roundedSin 0.5 0.5 (initialSession\<lparr>inPlay := True, progress := fl 0.87\<rparr>))
       = Some (Hit double (45035996273705 / 2 ^ 52) 42 23 (estimateDistance roundedSin 42 23))
   \<and> result (doSwing roundedSin 0.5 0.5 (initialSession\<lparr>inPlay := True, progress := fl 0.8805\<rparr>))
       = Some (Hit double (92323792361095 / 2 ^ 52) 37 16 (estimateDistance roundedSin 37 16))
   \<and> result (doSwing roundedSin 0.5 0.5 (initialSession\<lparr>inPlay := True, progress := fl 0.881\<rparr>))
       = Some (Hit single (189151184349561 / 2 ^ 53) 37 16 (estimateDistance roundedSin 37 16))
   \<and> result (doSwing roundedSin 0.5 0.5 (initialSession\<lparr>inPlay := True, progress := fl 0.895\<rparr>))
       = Some (Foul (315251973915935 / 2 ^ 53))
   \<and> result (doSwing roundedSin 0.5 0.5 (initialSession\<lparr>inPlay := True, progress := fl 0.915\<rparr>)) = None
   \<and> inPlay (doSwing roundedSin 0.5 0.5 (initialSession\<lparr>inPlay := True, progress := fl 0.915\<rparr>))"
proof -
  let ?at = "\<lambda>t. initialSession\<lparr>inPlay := True, progress := t\<rparr>"
  have fields: "\<And>t. inPlay (?at t)" "\<And>t. progress (?at t) = t" "\<And>t. result (?at t) = None"
    by (simp_all add: initialSession_def)
  have a: "result (doSwing roundedSin 0.5 0.5 (?at (fl 0.86)))
             = Some (Hit homerun 0 46.5 28 (estimateDistance roundedSin 46.5 28))"
    using doSwing_ladder [of "?at (fl 0.86)" roundedSin "0.5" "0.5"] band_numbers(1)
    by (simp only: fields Let_def swing_numbers rand_numbers)
  have b: "result (doSwing roundedSin 0.5 0.5 (?at (fl 0.87)))
             = Some (Hit double (45035996273705 / 2 ^ 52) 42 23 (estimateDistance roundedSin 42 23))"
    using doSwing_ladder [of "?at (fl 0.87)" roundedSin "0.5" "0.5"] band_numbers(2)
    by (simp only: fields Let_def swing_numbers rand_numbers)
  have c: "result (doSwing roundedSin 0.5 0.5 (?at (fl 0.8805)))
             = Some (Hit double (92323792361095 / 2 ^ 52) 37 16 (estimateDistance roundedSin 37 16))"
    using doSwing_ladder [of "?at (fl 0.8805)" roundedSin "0.5" "0.5"] band_numbers(3)
    by (simp only: fields Let_def swing_numbers rand_numbers)
  have d: "result (doSwing roundedSin 0.5 0.5 (?at (fl 0.881)))
             = Some (Hit single (189151184349561 / 2 ^ 53) 37 16 (estimateDistance roundedSin 37 16))"
    using doSwing_ladder [of "?at (fl 0.881)" roundedSin "0.5" "0.5"] band_numbers(4)
    by (simp only: fields Let_def swing_numbers rand_numbers)
  have e: "result (doSwing roundedSin 0.5 0.5 (?at (fl 0.895))) = Some (Foul (315251973915935 / 2 ^ 53))"
    using doSwing_ladder [of "?at (fl 0.895)" roundedSin "0.5" "0.5"] band_numbers(5)
    by (simp only: fields Let_def swing_numbers rand_numbers)
  have far: "FOUL < \<bar>fsub (progress (?at (fl 0.915))) CONTACT_PROGRESS\<bar>"
    using band_numbers(6) by (simp only: fields swing_numbers)
  have "inPlay (doSwing roundedSin 0.5 0.5 (?at (fl 0.915)))
        \<and> result (doSwing roundedSin 0.5 0.5 (?at (fl 0.915))) = result (?at (fl 0.915))"
    using doSwing_ladder [of "?at (fl 0.915)" roundedSin "0.5" "0.5"] fields(1) [of "fl 0.915"] far
    unfolding Let_def by blast
  then have f: "result (doSwing roundedSin 0.5 0.5 (?at (fl 0.915))) = None
           \<and> inPlay (doSwing roundedSin 0.5 0.5 (?at (fl 0.915)))"
    by (simp only: fields)
  from fields(1) a b c d e f show ?thesis
    by blast
qed

section \<open>Properties of the end of a flight\<close>

text \<open>
  When the frame callback runs at or after the full flight time, with a start timestamp other
  than 0: no recorded swing gives a miss, and a recorded swing progress other than 0 that is
  further than \<open>FOUL\<close> from the contact point gives an early strike before the contact point
  and a late strike after it.
\<close>

lemma step_end_verdict:
  assumes "startTsRef s = Some ts" "ts \<noteq> 0" "1 \<le> fdiv (fsub now ts) plateTime"
  shows "(swingAtRef s = None \<longrightarrow> result (step plateTime now h s) = Some (Strike miss))
       \<and> (\<forall>sw. swingAtRef s = Some sw \<and> sw \<noteq> 0 \<and> \<bar>fsub sw CONTACT_PROGRESS\<bar> > FOUL \<longrightarrow>
             result (step plateTime now h s)
               = Some (Strike (if sw < CONTACT_PROGRESS then early else late)))"
  by (auto simp: step_at_end [OF assms] result_cancelRaf result_settleResult
        simp del: settleResult.simps)

text \<open>
  Claim C3. The claim asks for an early strike at the end of the flight for every recorded
  swing progress in \<open>[0, 1]\<close> that lies before the contact point by more than \<open>FOUL\<close>.
  A pitch is started from the initial session at time 1000 with the default speed 85 (flight
  time 700); the batter swings before the first frame, while the progress is still 0, so
  the swing is recorded with progress 0 and is further than \<open>FOUL\<close> from the contact
  point; the frame callback then runs at time 1700, the end of the flight. The recorded 0 is
  falsy, and the callback settles a miss, the verdict for no swing at all.
\<close>

theorem flight_end_swing_at_zero:
  "swingAtRef (doSwing roundedSin 0.5 0.5 (startPitch 1000 1 initialSession)) = Some 0
   \<and> \<bar>0 - CONTACT_PROGRESS\<bar> > FOUL
   \<and> result (step (plateTimeMsFromMph 85) 1700 2
               (doSwing roundedSin 0.5 0.5 (startPitch 1000 1 initialSession)))
       = Some (Strike miss)"
proof -
  let ?p = "startPitch 1000 1 initialSession"
  have swing: "doSwing roundedSin 0.5 0.5 ?p = ?p\<lparr>swingAtRef := Some 0\<rparr>"
    using doSwing_cases [of ?p roundedSin "0.5" "0.5"] flight_numbers(1,2)
    by (simp add: pitch_started Let_def)
  have far: "\<bar>0 - CONTACT_PROGRESS\<bar> > FOUL"
    using flight_numbers(2) thresholds_order by simp
  have "step (plateTimeMsFromMph 85) 1700 2 (?p\<lparr>swingAtRef := Some 0\<rparr>) =
          (cancelRaf (settleResult (Strike miss) (?p\<lparr>swingAtRef := Some 0, progress := 1\<rparr>)))
            \<lparr>inPlay := False\<rparr>"
    by (subst step_at_end [where ts = 1000]) (simp_all add: pitch_started flight_numbers(3))
  then have "result (step (plateTimeMsFromMph 85) 1700 2 (?p\<lparr>swingAtRef := Some 0\<rparr>))
               = Some (Strike miss)"
    by (simp add: result_cancelRaf result_settleResult del: settleResult.simps)
  with swing far show ?thesis
    by simp
qed

section \<open>Properties of settleResult\<close>

lemma fouls_alone:
  "outs (foldl (\<lambda>s d. settleResult (Foul d) s) s ds) = outs s
   \<and> maxPitches (foldl (\<lambda>s d. settleResult (Foul d) s) s ds) = maxPitches s + int (length ds)
   \<and> (strikes s \<le> 2 \<longrightarrow> strikes (foldl (\<lambda>s d. settleResult (Foul d) s) s ds) \<le> 2)"
  by (induction ds arbitrary: s) (simp_all add: Let_def)

text \<open>
  Claim C4. A foul adds one strike when there are fewer than two and leaves the count at two
  otherwise, so the count after a foul is at most two and no out is recorded, also after any
  run of fouls; it raises the pitch limit by exactly one. With two strikes the count stays
  two and the limit grows by one.
\<close>

theorem settleResult_foul:
  "strikes (settleResult (Foul d) s) = (if strikes s < 2 then strikes s + 1 else 2)
   \<and> strikes (settleResult (Foul d) s) \<le> 2
   \<and> outs (settleResult (Foul d) s) = outs s
   \<and> maxPitches (settleResult (Foul d) s) = maxPitches s + 1
   \<and> (strikes s = 2 \<longrightarrow>
        strikes (settleResult (Foul d) s) = 2
        \<and> maxPitches (settleResult (Foul d) s) = maxPitches s + 1)
   \<and> outs (foldl (\<lambda>s d. settleResult (Foul d) s) s ds) = outs s"
proof -
  have one: "strikes (settleResult (Foul d) s) = (if strikes s < 2 then strikes s + 1 else 2)
      \<and> outs (settleResult (Foul d) s) = outs s
      \<and> maxPitches (settleResult (Foul d) s) = maxPitches s + 1"
    by (simp add: Let_def)
  have many: "outs (foldl (\<lambda>s d. settleResult (Foul d) s) s ds) = outs s"
    by (rule fouls_alone [THEN conjunct1])
  from one many show ?thesis
    by presburger
qed

theorem settleResult_foul_witness:
  "strikes (initialSession\<lparr>strikes := 2\<rparr>) = 2
   \<and> strikes (settleResult (Foul 0.04) (initialSession\<lparr>strikes := 2\<rparr>)) = 2
   \<and> maxPitches (settleResult (Foul 0.04) (initialSession\<lparr>strikes := 2\<rparr>)) = 6"
  using settleResult_foul [of "0.04" "initialSession\<lparr>strikes := 2\<rparr>"]
  by (simp add: initialSession_def)

text \<open>
  Claim C5. A strike adds one to the strike count; when that makes three, one out is added
  and the count returns to 0; runs and runners stay as they are. From a count of 0, three
  strikes in a row add exactly one out and leave the count at 0, so the fourth strike is the
  first of a new count.
\<close>

theorem settleResult_strike:
  "strikes (settleResult (Strike r) s) = (if strikes s + 1 \<ge> 3 then 0 else strikes s + 1)
   \<and> outs (settleResult (Strike r) s) = (if strikes s + 1 \<ge> 3 then outs s + 1 else outs s)
   \<and> runs (settleResult (Strike r) s) = runs s
   \<and> runners (settleResult (Strike r) s) = runners s
   \<and> (strikes s = 0 \<longrightarrow>
        (let s3 = settleResult (Strike r3) (settleResult (Strike r2) (settleResult (Strike r1) s))
         in outs s3 = outs s + 1 \<and> strikes s3 = 0 \<and> runs s3 = runs s \<and> runners s3 = runners s
            \<and> strikes (settleResult (Strike r4) s3) = 1
            \<and> outs (settleResult (Strike r4) s3) = outs s + 1))"
  by (simp add: Let_def)

theorem settleResult_strike_witness:
  "strikes initialSession = 0
   \<and> outs (settleResult (Strike miss)
        (settleResult (Strike late) (settleResult (Strike early) initialSession))) = 1
   \<and> strikes (settleResult (Strike miss)
        (settleResult (Strike late) (settleResult (Strike early) initialSession))) = 0
   \<and> strikes (settleResult (Strike miss) (settleResult (Strike miss)
        (settleResult (Strike late) (settleResult (Strike early) initialSession)))) = 1"
  using settleResult_strike [of early initialSession early late miss miss]
  by (simp add: Let_def initialSession_def)

text \<open>
  Claim C6. A home run adds 5 plus the number of occupied bases to the runs, empties the
  three bases and sets the strike count to 0; with the bases loaded the runs grow by 8.
\<close>

theorem settleResult_homerun:
  "runs (settleResult (Hit homerun d ev ld dst) s) = runs s + 5 + occupied (runners s)
   \<and> runners (settleResult (Hit homerun d ev ld dst) s)
       = \<lparr>on1 = False, on2 = False, on3 = False\<rparr>
   \<and> strikes (settleResult (Hit homerun d ev ld dst) s) = 0
   \<and> (runners s = \<lparr>on1 = True, on2 = True, on3 = True\<rparr> \<longrightarrow>
        runs (settleResult (Hit homerun d ev ld dst) s) = runs s + 8)"
  by (simp add: Let_def occupied_def)

theorem settleResult_homerun_witness:
  "runs (settleResult (Hit homerun 0 46 28 120)
          (initialSession\<lparr>runs := 3, strikes := 2,
             runners := \<lparr>on1 = True, on2 = True, on3 = True\<rparr>\<rparr>)) = 11"
  using settleResult_homerun [of 0 46 28 120
          "initialSession\<lparr>runs := 3, strikes := 2,
             runners := \<lparr>on1 = True, on2 = True, on3 = True\<rparr>\<rparr>"]
  by (simp add: initialSession_def)

section \<open>Properties of the effects and of reset\<close>

text \<open>
  Claim C7. When the outs have reached three, the effect sets outs and strikes to 0 and
  empties the bases; runs, pitch count and every other component keep their values.
\<close>

theorem inningEffect_frame:
  assumes "outs s \<ge> 3"
  shows "outs (inningEffect s) = 0 \<and> strikes (inningEffect s) = 0
     \<and> runners (inningEffect s) = \<lparr>on1 = False, on2 = False, on3 = False\<rparr>
     \<and> runs (inningEffect s) = runs s \<and> pitches (inningEffect s) = pitches s
     \<and> maxPitches (inningEffect s) = maxPitches s \<and> gameOver (inningEffect s) = gameOver s
     \<and> inPlay (inningEffect s) = inPlay s \<and> progress (inningEffect s) = progress s
     \<and> result (inningEffect s) = result s \<and> swingAtRef (inningEffect s) = swingAtRef s
     \<and> rafRef (inningEffect s) = rafRef s \<and> startTsRef (inningEffect s) = startTsRef s"
  using assms by (simp add: inningEffect_def)

text \<open>The third out comes from a strike with two strikes and two outs on the board.\<close>

theorem inningEffect_frame_witness:
  "outs (settleResult (Strike miss)
           (initialSession\<lparr>strikes := 2, outs := 2, runs := 4, pitches := 9,
              runners := \<lparr>on1 = True, on2 = False, on3 = True\<rparr>\<rparr>)) \<ge> 3
   \<and> outs (inningEffect (settleResult (Strike miss)
           (initialSession\<lparr>strikes := 2, outs := 2, runs := 4, pitches := 9,
              runners := \<lparr>on1 = True, on2 = False, on3 = True\<rparr>\<rparr>))) = 0
   \<and> runners (inningEffect (settleResult (Strike miss)
           (initialSession\<lparr>strikes := 2, outs := 2, runs := 4, pitches := 9,
              runners := \<lparr>on1 = True, on2 = False, on3 = True\<rparr>\<rparr>)))
       = \<lparr>on1 = False, on2 = False, on3 = False\<rparr>
   \<and> runs (inningEffect (settleResult (Strike miss)
           (initialSession\<lparr>strikes := 2, outs := 2, runs := 4, pitches := 9,
              runners := \<lparr>on1 = True, on2 = False, on3 = True\<rparr>\<rparr>))) = 4
   \<and> pitches (inningEffect (settleResult (Strike miss)
           (initialSession\<lparr>strikes := 2, outs := 2, runs := 4, pitches := 9,
              runners := \<lparr>on1 = True, on2 = False, on3 = True\<rparr>\<rparr>))) = 9"
  using inningEffect_frame [of "settleResult (Strike miss)
           (initialSession\<lparr>strikes := 2, outs := 2, runs := 4, pitches := 9,
              runners := \<lparr>on1 = True, on2 = False, on3 = True\<rparr>\<rparr>)"]
  by (simp add: initialSession_def Let_def)

text \<open>
  Claim C8. The claim has reset produce one and the same state from every prior state. A
  pitch from the initial session that is fouled off (frame at time 1630, progress 0.9) raises
  the pitch limit to 6; reset keeps that limit, while the initial session resets to a limit
  of 5, so the two reset states differ.
\<close>

theorem resetAll_keeps_limit:
  "maxPitches (resetAll (doSwing roundedSin 0.5 0.5
       (step (plateTimeMsFromMph 85) 1630 2 (startPitch 1000 1 initialSession)))) = 6
   \<and> maxPitches (resetAll initialSession) = 5
   \<and> resetAll (doSwing roundedSin 0.5 0.5
       (step (plateTimeMsFromMph 85) 1630 2 (startPitch 1000 1 initialSession)))
       \<noteq> resetAll initialSession"
proof -
  let ?p = "startPitch 1000 1 initialSession"
  let ?q = "?p\<lparr>progress := 8106479329266893 / 2 ^ 53, rafRef := Some 2\<rparr>"
  have flying: "step (plateTimeMsFromMph 85) 1630 2 ?p = ?q"
    by (subst step_in_flight [where ts = 1000]) (simp_all add: pitch_started flight_numbers(4))
  have "inPlay ?q"
    by (simp add: pitch_started)
  moreover have "OKAY < \<bar>fsub (progress ?q) CONTACT_PROGRESS\<bar>
      \<and> \<bar>fsub (progress ?q) CONTACT_PROGRESS\<bar> \<le> FOUL"
    using flight_numbers(5,6,7) by simp
  ultimately have "doSwing roundedSin 0.5 0.5 ?q =
      (settleResult (Foul \<bar>fsub (progress ?q) CONTACT_PROGRESS\<bar>)
         (?q\<lparr>swingAtRef := Some (progress ?q)\<rparr>))\<lparr>inPlay := False\<rparr>"
    using doSwing_cases [of ?q roundedSin "0.5" "0.5"] unfolding Let_def by blast
  then have six: "maxPitches (resetAll (doSwing roundedSin 0.5 0.5 ?q)) = 6"
    by (simp add: resetAll_def pitch_started Let_def)
  have five: "maxPitches (resetAll initialSession) = 5"
    by (simp add: resetAll_def initialSession_def)
  from six five have "resetAll (doSwing roundedSin 0.5 0.5 ?q) \<noteq> resetAll initialSession"
    by (metis numeral_eq_iff semiring_norm(89))
  with six five flying show ?thesis
    by simp
qed

text \<open>
  Reset does not cancel the frame callback either: after a reset during a flight the
  callback still runs at the end of that flight and settles a miss on the reset session.
\<close>

lemma resetAll_leaves_loop:
  "\<not> inPlay (resetAll (startPitch 1000 1 initialSession))
   \<and> strikes (resetAll (startPitch 1000 1 initialSession)) = 0
   \<and> result (step (plateTimeMsFromMph 85) 1700 2 (resetAll (startPitch 1000 1 initialSession)))
       = Some (Strike miss)
   \<and> strikes (step (plateTimeMsFromMph 85) 1700 2 (resetAll (startPitch 1000 1 initialSession))) = 1"
proof -
  let ?r = "resetAll (startPitch 1000 1 initialSession)"
  have fields: "startTsRef (resetAll (startPitch now h initialSession)) = Some now"
    "swingAtRef (resetAll (startPitch now h initialSession)) = None"
    "strikes (resetAll (startPitch now h initialSession)) = 0"
    "\<not> inPlay (resetAll (startPitch now h initialSession))" for now h
    by (simp_all add: resetAll_def pitch_started)
  have "step (plateTimeMsFromMph 85) 1700 2 ?r =
          (cancelRaf (settleResult (Strike miss) (?r\<lparr>progress := 1\<rparr>)))\<lparr>inPlay := False\<rparr>"
    by (subst step_at_end [where ts = 1000]) (simp_all add: fields flight_numbers(3))
  then show ?thesis
    by (simp add: fields cancelRaf_def Let_def split: option.splits)
qed

text \<open>
  What reset leaves alone: the pitch limit and the three references. Two states reset to
  the same state exactly when they agree on these.
\<close>

lemma resetAll_untouched:
  "maxPitches (resetAll s) = maxPitches s \<and> swingAtRef (resetAll s) = swingAtRef s
   \<and> rafRef (resetAll s) = rafRef s \<and> startTsRef (resetAll s) = startTsRef s
   \<and> (resetAll s = resetAll s' \<longleftrightarrow>
        maxPitches s = maxPitches s' \<and> swingAtRef s = swingAtRef s'
        \<and> rafRef s = rafRef s' \<and> startTsRef s = startTsRef s')"
  by (cases s, cases s') (auto simp: resetAll_def)

text \<open>
  What reset does set: strikes, outs, runs and pitch count to 0, no last result, empty bases,
  not in flight, progress 0, game not over; and reset after reset equals reset.
\<close>

lemma resetAll_sets:
  "strikes (resetAll s) = 0 \<and> outs (resetAll s) = 0 \<and> runs (resetAll s) = 0
   \<and> pitches (resetAll s) = 0 \<and> result (resetAll s) = None \<and> \<not> inPlay (resetAll s)
   \<and> progress (resetAll s) = 0
   \<and> runners (resetAll s) = \<lparr>on1 = False, on2 = False, on3 = False\<rparr>
   \<and> \<not> gameOver (resetAll s)
   \<and> resetAll (resetAll s) = resetAll s"
  by (simp add: resetAll_def)

section \<open>Properties of the flight duration\<close>





end
